theory Spec2Isabelle
  imports Main "HOL-Library.Sublist"
begin

section \<open>bw2landbalancer: the database-level land balancer\<close>

text \<open>
  A shallow embedding of \<^verbatim>\<open>bw2landbalancer/database_land_balancer.py\<close>, the class
  \<^verbatim>\<open>DatabaseLandBalancer\<close>. The object is a record that every method takes and returns
  (Python mutates \<^verbatim>\<open>self\<close> in place, so a method that raises still returns the record
  as the exception left it). An exception is a value of type \<open>error\<close>; a method's outcome
  is \<open>Inl e\<close> when it raises \<open>e\<close> and \<open>Inr v\<close> when it returns \<open>v\<close>.
\<close>

subsection \<open>Data\<close>

text \<open>The exceptions that can surface from the methods of the class.\<close>

datatype error =
    ValueError string    \<comment> \<open>raised by \<^verbatim>\<open>__init__\<close> and by \<^verbatim>\<open>np.concatenate\<close>\<close>
  | IndexError           \<comment> \<open>\<^verbatim>\<open>data[1][0]\<close> on an empty index block, \<^verbatim>\<open>row[1]\<close> on a short row\<close>
  | UnknownObject        \<comment> \<open>\<^verbatim>\<open>bd.get_activity\<close> on a key it cannot resolve\<close>
  | Failure string       \<comment> \<open>whatever an external collaborator raises\<close>

text \<open>A brightway key is the pair (database name, code).\<close>

type_synonym key = "string \<times> string"

text \<open>
  An elementary flow or an activity, as far as the class reads it: \<^verbatim>\<open>ef.key\<close>,
  \<^verbatim>\<open>ef['name']\<close>, \<^verbatim>\<open>act.key\<close>.
\<close>

record dataset =
  key :: key
  name :: string

text \<open>
  The module \<^verbatim>\<open>bw2data\<close> (imported as \<^verbatim>\<open>bd\<close>), an external collaborator that is only
  read: the registry \<^verbatim>\<open>bd.databases\<close>, the datasets \<^verbatim>\<open>bd.Database(name)\<close> iterates
  over, in iteration order, and \<^verbatim>\<open>bd.get_activity\<close>.
\<close>

record bd =
  databases :: "string list"
  Database :: "string \<Rightarrow> dataset list"
  get_activity :: "key \<Rightarrow> error + dataset"

text \<open>
  A two-dimensional numpy array: its column count (\<^verbatim>\<open>shape[1]\<close>, which an array with no
  rows still has) and its rows. The element type is left open: nothing in the class looks
  at a sample value.
\<close>

datatype 'v ndarray = NDArray (ncols: nat) (rows: "'v list list")

definition nrows :: "'v ndarray \<Rightarrow> nat" where
  "nrows m = length (rows m)"

text \<open>
  \<^verbatim>\<open>np.concatenate([a, b], axis=0)\<close>: the rows of \<open>a\<close> followed by those of \<open>b\<close>; numpy
  raises ValueError unless the two arrays have the same number of columns.
\<close>

definition concatenate :: "'v ndarray \<Rightarrow> 'v ndarray \<Rightarrow> error + 'v ndarray" where
  "concatenate a b =
     (if ncols a = ncols b then Inr (NDArray (ncols a) (rows a @ rows b))
      else Inl (ValueError ''all the input array dimensions except for the concatenation axis must match exactly''))"

text \<open>
  One entry of an index block is a Python tuple, whose length the code inspects; its
  components are keys and the tag string.
\<close>

datatype item = Key key | Str string

type_synonym index_row = "item list"

text \<open>What the resampler yields: \<^verbatim>\<open>data[0]\<close> is the numeric block, \<^verbatim>\<open>data[1]\<close> the index block.\<close>

type_synonym 'v data = "'v ndarray \<times> index_row list"

text \<open>The attributes of a \<^verbatim>\<open>DatabaseLandBalancer\<close>; \<^verbatim>\<open>matrix_samples\<close> starts as \<^verbatim>\<open>None\<close>.\<close>

record 'v balancer =
  database_name :: string
  biosphere :: string
  group :: string
  matrix_indices :: "index_row list"
  matrix_samples :: "'v ndarray option"
  land_in_keys :: "key list"
  land_out_keys :: "key list"
  all_land_keys :: "key list"

text \<open>
  \<^verbatim>\<open>add_samples_for_act\<close> documents its argument as a key; \<^verbatim>\<open>add_samples_for_all_acts\<close>
  passes the activity that \<^verbatim>\<open>bd.get_activity\<close> returns. The resampler receives either.
\<close>

datatype act_ref = ByKey key | ByActivity dataset

text \<open>
  Modelled from the spec: the per-activity resampler
  \<^verbatim>\<open>ActivityLandBalancer(act_key, self).generate_samples(iterations)\<close>, whose module
  \<^verbatim>\<open>activity_land_balancer\<close> is missing. It is a parameter of the methods that call it:
  given the balancer, the activity and the iteration count, it produces the finite
  sequence of pairs it yields and, possibly, the exception that ends the sequence (raised
  by the constructor when nothing was yielded). It reads the balancer and does not change
  it.
\<close>

type_synonym 'v resampler = "'v balancer \<Rightarrow> act_ref \<Rightarrow> int \<Rightarrow> 'v data list \<times> error option"

subsection \<open>Construction\<close>

text \<open>
  The inner loop of the classifier, \<^verbatim>\<open>for pattern in patterns: if pattern in ef['name']:
  keys.append(ef.key)\<close>. Python's \<^verbatim>\<open>in\<close> on strings is the contiguous-substring test
  \<^const>\<open>sublist\<close>.
\<close>

fun append_matches :: "dataset \<Rightarrow> string list \<Rightarrow> key list \<Rightarrow> key list" where
  "append_matches ef [] keys = keys"
| "append_matches ef (pattern # patterns) keys =
     append_matches ef patterns (if sublist pattern (name ef) then keys @ [key ef] else keys)"

text \<open>The outer loop, \<^verbatim>\<open>for ef in bd.Database(self.biosphere)\<close>.\<close>

fun classify :: "dataset list \<Rightarrow> string list \<Rightarrow> key list \<Rightarrow> key list" where
  "classify [] patterns keys = keys"
| "classify (ef # efs) patterns keys = classify efs patterns (append_matches ef patterns keys)"

text \<open>\<^verbatim>\<open>"Database {} not imported".format(n)\<close>\<close>

definition not_imported :: "string \<Rightarrow> string" where
  "not_imported n = ''Database '' @ n @ '' not imported''"

text \<open>\<^verbatim>\<open>DatabaseLandBalancer.__init__\<close>; the two \<^verbatim>\<open>print\<close> calls are not modelled.\<close>

definition init ::
  "bd \<Rightarrow> string \<Rightarrow> string \<Rightarrow> string \<Rightarrow> string list \<Rightarrow> string list \<Rightarrow> error + 'v balancer"
where
  "init env database_name' biosphere' group' land_from_patterns land_to_patterns =
     (if database_name' \<notin> set (databases env) then Inl (ValueError (not_imported database_name'))
      else if biosphere' \<notin> set (databases env) then Inl (ValueError (not_imported biosphere'))
      else
        let land_in = classify (Database env biosphere') land_from_patterns [];
            land_out = classify (Database env biosphere') land_to_patterns []
        in Inr \<lparr> database_name = database_name',
                 biosphere = biosphere',
                 group = group',
                 matrix_indices = [],
                 matrix_samples = None,
                 land_in_keys = land_in,
                 land_out_keys = land_out,
                 all_land_keys = land_in @ land_out \<rparr>)"

text \<open>The constructor with every default argument of the signature.\<close>

definition init_default :: "bd \<Rightarrow> string \<Rightarrow> error + 'v balancer" where
  "init_default env database_name' =
     init env database_name' ''biosphere3'' ''land'' [''Transformation, from''] [''Transformation, to'']"

subsection \<open>Accumulation\<close>

text \<open>
  \<^verbatim>\<open>for row in data[1]: self.matrix_indices.append((row[0], row[1], 'biosphere'))\<close>.
  A row with fewer than two components raises IndexError, after the rows before it were
  appended.
\<close>

fun append_biosphere :: "index_row list \<Rightarrow> 'v balancer \<Rightarrow> (error + unit) \<times> 'v balancer" where
  "append_biosphere [] b = (Inr (), b)"
| "append_biosphere (row # rest) b =
     (case row of
        r0 # r1 # _ \<Rightarrow>
          append_biosphere rest (b\<lparr>matrix_indices := matrix_indices b @ [[r0, r1, Str ''biosphere'']]\<rparr>)
      | _ \<Rightarrow> (Inl IndexError, b))"

text \<open>Lines 117 to 121: the shape of the first entry decides for the whole index block.\<close>

definition add_indices :: "index_row list \<Rightarrow> 'v balancer \<Rightarrow> (error + unit) \<times> 'v balancer" where
  "add_indices idx b =
     (case idx of
        [] \<Rightarrow> (Inl IndexError, b)
      | first # _ \<Rightarrow>
          if length first = 2 then append_biosphere idx b
          else (Inr (), b\<lparr>matrix_indices := matrix_indices b @ idx\<rparr>))"

text \<open>Lines 122 to 125.\<close>

definition add_block :: "'v ndarray \<Rightarrow> 'v balancer \<Rightarrow> (error + unit) \<times> 'v balancer" where
  "add_block blk b =
     (case matrix_samples b of
        None \<Rightarrow> (Inr (), b\<lparr>matrix_samples := Some blk\<rparr>)
      | Some m \<Rightarrow>
          (case concatenate m blk of
             Inl e \<Rightarrow> (Inl e, b)
           | Inr m' \<Rightarrow> (Inr (), b\<lparr>matrix_samples := Some m'\<rparr>)))"

text \<open>The body of the loop over the yielded pairs: the indices first, then the samples.\<close>

definition add_data :: "'v data \<Rightarrow> 'v balancer \<Rightarrow> (error + unit) \<times> 'v balancer" where
  "add_data data b =
     (case add_indices (snd data) b of
        (Inl e, b') \<Rightarrow> (Inl e, b')
      | (Inr _, b') \<Rightarrow> add_block (fst data) b')"

text \<open>
  The loop \<^verbatim>\<open>for data in ab.generate_samples(iterations)\<close>: an exception in the body leaves
  the loop; when the pairs are used up, the exception that ended the generator, if any,
  surfaces.
\<close>

fun consume :: "'v data list \<Rightarrow> error option \<Rightarrow> 'v balancer \<Rightarrow> (error + unit) \<times> 'v balancer" where
  "consume [] None b = (Inr (), b)"
| "consume [] (Some e) b = (Inl e, b)"
| "consume (data # rest) stop b =
     (case add_data data b of
        (Inl e, b') \<Rightarrow> (Inl e, b')
      | (Inr _, b') \<Rightarrow> consume rest stop b')"

text \<open>\<^verbatim>\<open>DatabaseLandBalancer.add_samples_for_act\<close>\<close>

definition add_samples_for_act ::
  "'v resampler \<Rightarrow> act_ref \<Rightarrow> int \<Rightarrow> 'v balancer \<Rightarrow> (error + unit) \<times> 'v balancer"
where
  "add_samples_for_act generate_samples act_key iterations b =
     (case generate_samples b act_key iterations of
        (yielded, stop) \<Rightarrow> consume yielded stop b)"

text \<open>
  The loop of \<^verbatim>\<open>add_samples_for_all_acts\<close> over the list \<^verbatim>\<open>act_keys\<close>;
  \<^verbatim>\<open>pyprind.prog_bar\<close> hands the list through.
\<close>

fun for_act_keys ::
  "'v resampler \<Rightarrow> bd \<Rightarrow> int \<Rightarrow> key list \<Rightarrow> 'v balancer \<Rightarrow> (error + unit) \<times> 'v balancer"
where
  "for_act_keys generate_samples env iterations [] b = (Inr (), b)"
| "for_act_keys generate_samples env iterations (act_key # rest) b =
     (case get_activity env act_key of
        Inl e \<Rightarrow> (Inl e, b)
      | Inr act \<Rightarrow>
          (case add_samples_for_act generate_samples (ByActivity act) iterations b of
             (Inl e, b') \<Rightarrow> (Inl e, b')
           | (Inr _, b') \<Rightarrow> for_act_keys generate_samples env iterations rest b'))"

text \<open>\<^verbatim>\<open>DatabaseLandBalancer.add_samples_for_all_acts\<close>\<close>

definition add_samples_for_all_acts ::
  "'v resampler \<Rightarrow> bd \<Rightarrow> int \<Rightarrow> 'v balancer \<Rightarrow> (error + unit) \<times> 'v balancer"
where
  "add_samples_for_all_acts generate_samples env iterations b =
     (let act_keys = map key (Database env (database_name b))
      in for_act_keys generate_samples env iterations act_keys b)"

subsection \<open>Export\<close>

text \<open>The argument \<^verbatim>\<open>seed\<close>: \<^verbatim>\<open>None\<close>, an integer or \<^verbatim>\<open>"sequential"\<close>.\<close>

datatype seed = NoSeed | IntSeed int | Sequential

text \<open>
  The two functions of the external package \<^verbatim>\<open>presamples\<close>.
  \<^verbatim>\<open>split_inventory_presamples\<close> turns the samples and the indices into matrix data, or
  raises. \<^verbatim>\<open>create_presamples_package\<close> takes matrix data, name, id, overwrite flag,
  directory and seed, writes to the package store (of some type \<open>'s\<close>) and returns the
  pair (id, directory), or raises.
\<close>

type_synonym ('v, 'm) splitter = "'v ndarray \<Rightarrow> index_row list \<Rightarrow> error + 'm"

type_synonym ('m, 's) writer =
  "'m \<Rightarrow> string option \<Rightarrow> string option \<Rightarrow> bool \<Rightarrow> string option \<Rightarrow> seed \<Rightarrow> 's
     \<Rightarrow> (error + string \<times> string) \<times> 's"

text \<open>
  What a call leaves outside its return value: the balancer, the package store and the
  warnings emitted through \<^verbatim>\<open>warnings.warn\<close>.
\<close>

record ('v, 's) world =
  self :: "'v balancer"
  store :: 's
  warned :: "string list"

definition no_matrix_data :: string where
  "no_matrix_data =
     ''No presamples created because there were no matrix data. '' @
     ''Make sure to run `add_samples_for_all_acts` or '' @
     ''`add_samples_for_act` for a set of acts first.''"

text \<open>
  \<^verbatim>\<open>DatabaseLandBalancer.create_presamples\<close>. The result \<open>Inr None\<close> is the bare
  \<^verbatim>\<open>return\<close>; the final \<^verbatim>\<open>print\<close> is not modelled.
\<close>

definition create_presamples ::
  "('v, 'm) splitter \<Rightarrow> ('m, 's) writer \<Rightarrow>
   string option \<Rightarrow> string option \<Rightarrow> bool \<Rightarrow> string option \<Rightarrow> seed \<Rightarrow>
   ('v, 's) world \<Rightarrow> (error + (string \<times> string) option) \<times> ('v, 's) world"
where
  "create_presamples split_inventory_presamples create_presamples_package
       name' id' overwrite dirpath seed' w =
     (if \<not> (matrix_samples (self w) \<noteq> None \<and> matrix_indices (self w) \<noteq> []) then
        (Inr None, w\<lparr>warned := warned w @ [no_matrix_data]\<rparr>)
      else
        (case split_inventory_presamples (the (matrix_samples (self w))) (matrix_indices (self w)) of
           Inl e \<Rightarrow> (Inl e, w)
         | Inr matrix_data \<Rightarrow>
             (case create_presamples_package matrix_data name' id' overwrite dirpath seed' (store w) of
                (Inl e, s') \<Rightarrow> (Inl e, w\<lparr>store := s'\<rparr>)
              | (Inr id_dirpath, s') \<Rightarrow> (Inr (Some id_dirpath), w\<lparr>store := s'\<rparr>))))"

subsection \<open>A client calling the balancer repeatedly\<close>

text \<open>
  A sequence of \<^verbatim>\<open>add_samples_for_act\<close> calls on one balancer, each with its activity and
  iteration count; an exception ends the sequence, as it would end the calling script.
\<close>

fun add_samples_calls ::
  "'v resampler \<Rightarrow> (act_ref \<times> int) list \<Rightarrow> 'v balancer \<Rightarrow> (error + unit) \<times> 'v balancer"
where
  "add_samples_calls generate_samples [] b = (Inr (), b)"
| "add_samples_calls generate_samples (call # calls) b =
     (case add_samples_for_act generate_samples (fst call) (snd call) b of
        (Inl e, b') \<Rightarrow> (Inl e, b')
      | (Inr _, b') \<Rightarrow> add_samples_calls generate_samples calls b')"

text \<open>The pairs the resampler yields over such a sequence of calls, in the order yielded.\<close>

fun yielded_during :: "'v resampler \<Rightarrow> (act_ref \<times> int) list \<Rightarrow> 'v balancer \<Rightarrow> 'v data list" where
  "yielded_during generate_samples [] b = []"
| "yielded_during generate_samples (call # calls) b =
     fst (generate_samples b (fst call) (snd call)) @
     yielded_during generate_samples calls
       (snd (add_samples_for_act generate_samples (fst call) (snd call) b))"

text \<open>The rows of the Sample Matrix; while it is unset it has none.\<close>

definition sample_rows :: "'v balancer \<Rightarrow> 'v list list" where
  "sample_rows b = (case matrix_samples b of None \<Rightarrow> [] | Some m \<Rightarrow> rows m)"

text \<open>Two balancers that differ at most in their accumulation state.\<close>

definition same_config :: "'v balancer \<Rightarrow> 'v balancer \<Rightarrow> bool" where
  "same_config b b' \<longleftrightarrow>
     database_name b' = database_name b \<and> biosphere b' = biosphere b \<and> group b' = group b \<and>
     land_in_keys b' = land_in_keys b \<and> land_out_keys b' = land_out_keys b \<and>
     all_land_keys b' = all_land_keys b"

subsection \<open>The resampler contract\<close>

text \<open>
  Modelled from the spec: the normalisation of index entries in the words of the
  specification (section 4.3), against which the code's handling of an index block is
  compared. A 2-element tuple (flow key, activity key) gets the tag \<^verbatim>\<open>'biosphere'\<close>
  appended, any other tuple is kept as it is.
\<close>

definition spec_normalized :: "index_row list \<Rightarrow> index_row list" where
  "spec_normalized idx = map (\<lambda>row. case row of [f, a] \<Rightarrow> [f, a, Str ''biosphere''] | _ \<Rightarrow> row) idx"

text \<open>
  Modelled from the spec: an index block as the contract of the per-activity resampler
  describes it (section 4.3; the module \<^verbatim>\<open>activity_land_balancer\<close> itself is missing), a
  list of 2-element tuples or a list of 3-element tuples, here with at least one entry.
\<close>

definition contract_block :: "index_row list \<Rightarrow> bool" where
  "contract_block idx \<longleftrightarrow>
     idx \<noteq> [] \<and> ((\<forall>row\<in>set idx. length row = 2) \<or> (\<forall>row\<in>set idx. length row = 3))"

subsection \<open>A small project\<close>

text \<open>
  A project with a biosphere of three flows and a database of two activities, used to
  run the definitions on concrete input.
\<close>

definition ex_flows :: "dataset list" where
  "ex_flows =
     [\<lparr>key = (''biosphere3'', ''f1''), name = ''Transformation, from forest''\<rparr>,
      \<lparr>key = (''biosphere3'', ''f2''), name = ''Transformation, to arable''\<rparr>,
      \<lparr>key = (''biosphere3'', ''f3''), name = ''Carbon dioxide''\<rparr>]"

definition ex_acts :: "dataset list" where
  "ex_acts =
     [\<lparr>key = (''db'', ''a1''), name = ''logging''\<rparr>,
      \<lparr>key = (''db'', ''a2''), name = ''farming''\<rparr>]"

definition ex_bd :: bd where
  "ex_bd =
     \<lparr>databases = [''biosphere3'', ''db''],
      Database = (\<lambda>n. if n = ''biosphere3'' then ex_flows else if n = ''db'' then ex_acts else []),
      get_activity = (\<lambda>k. case find (\<lambda>a. key a = k) ex_acts of None \<Rightarrow> Inl UnknownObject | Some a \<Rightarrow> Inr a)\<rparr>"

definition ex_fresh :: "int balancer" where
  "ex_fresh =
     \<lparr>database_name = ''db'', biosphere = ''biosphere3'', group = ''land'',
      matrix_indices = [], matrix_samples = None,
      land_in_keys = [(''biosphere3'', ''f1'')], land_out_keys = [(''biosphere3'', ''f2'')],
      all_land_keys = [(''biosphere3'', ''f1''), (''biosphere3'', ''f2'')]\<rparr>"

text \<open>
  A resampler that yields, for any activity, one block of two rows and one 2-tuple index
  entry for each land flow of the balancer.
\<close>

definition ex_generate_samples :: "int resampler" where
  "ex_generate_samples b act_key iterations =
     (let k = (case act_key of ByKey k \<Rightarrow> k | ByActivity act \<Rightarrow> key act);
          n = nat iterations
      in ([(NDArray n [replicate n 1, replicate n 2], map (\<lambda>f. [Key f, Key k]) (all_land_keys b))], None))"

text \<open>
  A resampler that yields two pairs for any activity: a block indexed by a 2-tuple and a
  block indexed by a pre-formed 3-tuple of the technosphere.
\<close>

definition ex_generate_two_shapes :: "int resampler" where
  "ex_generate_two_shapes b act_key iterations =
     (let k = (case act_key of ByKey k \<Rightarrow> k | ByActivity act \<Rightarrow> key act);
          n = nat iterations
      in ([(NDArray n [replicate n 1], [[Key (''biosphere3'', ''f1''), Key k]]),
           (NDArray n [replicate n 2], [[Key (''db'', ''a2''), Key k, Str ''technosphere'']])], None))"

text \<open>A resampler that raises for the activity \<^verbatim>\<open>('db', 'a2')\<close> and yields as above for any other.\<close>

definition ex_generate_raising :: "int resampler" where
  "ex_generate_raising b act_key iterations =
     (if act_key = ByActivity \<lparr>key = (''db'', ''a2''), name = ''farming''\<rparr>
      then ([], Some (Failure ''no land exchanges''))
      else ex_generate_samples b act_key iterations)"

text \<open>A resampler that yields nothing and returns, as for an activity without land exchanges.\<close>

definition ex_generate_nothing :: "int resampler" where
  "ex_generate_nothing b act_key iterations = ([], None)"

text \<open>
  Stand-ins for the two functions of \<^verbatim>\<open>presamples\<close>: the matrix data are the samples with
  their indices, the store is the list of packages written, and the writer refuses an id
  that is in the store unless \<^verbatim>\<open>overwrite\<close> is set.
\<close>

definition ex_split :: "(int, int ndarray \<times> index_row list) splitter" where
  "ex_split samples indices =
     (if nrows samples = length indices then Inr (samples, indices)
      else Inl (ValueError ''samples and indices must have same number of rows''))"

definition ex_writer :: "(int ndarray \<times> index_row list, (string \<times> int ndarray \<times> index_row list) list) writer" where
  "ex_writer matrix_data name' id' overwrite dirpath seed' packages =
     (let i = (case id' of None \<Rightarrow> ''generated-id'' | Some i \<Rightarrow> i);
          d = (case dirpath of None \<Rightarrow> ''project/presamples'' | Some d \<Rightarrow> d)
      in if i \<in> set (map fst packages) \<and> \<not> overwrite
         then (Inl (ValueError ''package exists''), packages)
         else (Inr (i, d), (i, matrix_data) # filter (\<lambda>p. fst p \<noteq> i) packages))"

section \<open>Properties\<close>

subsection \<open>Auxiliary facts\<close>

lemma ex_init: "init_default ex_bd ''db'' = Inr ex_fresh"
  by (simp add: init_default_def init_def Let_def ex_bd_def ex_flows_def ex_fresh_def sublist_code)

lemma append_matches_eq:
  "append_matches ef ps keys = keys @ replicate (length (filter (\<lambda>p. sublist p (name ef)) ps)) (key ef)"
  by (induction ps arbitrary: keys) (auto simp: replicate_app_Cons_same)

lemma classify_eq:
  "classify efs ps keys =
     keys @ concat (map (\<lambda>ef. replicate (length (filter (\<lambda>p. sublist p (name ef)) ps)) (key ef)) efs)"
  by (induction efs arbitrary: keys) (auto simp: append_matches_eq)


lemma same_config_refl [simp]: "same_config b b"
  by (simp add: same_config_def)

lemma same_config_trans: "same_config a b \<Longrightarrow> same_config b c \<Longrightarrow> same_config a c"
  by (simp add: same_config_def)

lemma append_biosphere_frame:
  "append_biosphere idx b = (r, b') \<Longrightarrow>
     same_config b b' \<and> matrix_samples b' = matrix_samples b \<and>
     prefix (matrix_indices b) (matrix_indices b')"
proof (induction idx arbitrary: b)
  case Nil
  then show ?case by auto
next
  case (Cons row rest)
  show ?case
  proof (cases "\<exists>r0 r1 tl. row = r0 # r1 # tl")
    case True
    then obtain r0 r1 tl where row: "row = r0 # r1 # tl" by blast
    with Cons.prems have
      "append_biosphere rest (b\<lparr>matrix_indices := matrix_indices b @ [[r0, r1, Str ''biosphere'']]\<rparr>) = (r, b')"
      by simp
    from Cons.IH [OF this] show ?thesis
      by (auto simp: same_config_def dest: append_prefixD)
  next
    case False
    with Cons.prems have "b' = b"
      by (auto split: list.splits)
    then show ?thesis by simp
  qed
qed

lemma append_biosphere_ok:
  "\<forall>row\<in>set idx. 2 \<le> length row \<Longrightarrow>
     append_biosphere idx b =
       (Inr (), b\<lparr>matrix_indices := matrix_indices b @ map (\<lambda>row. [row ! 0, row ! 1, Str ''biosphere'']) idx\<rparr>)"
proof (induction idx arbitrary: b)
  case Nil
  then show ?case by simp
next
  case (Cons row rest)
  then obtain r0 r1 tl where row: "row = r0 # r1 # tl"
    by (cases row; cases "tl row") auto
  with Cons show ?case by simp
qed

lemma append_biosphere_Inr:
  "append_biosphere idx b = (Inr u, b') \<Longrightarrow>
     length (matrix_indices b') = length (matrix_indices b) + length idx"
proof (induction idx arbitrary: b)
  case Nil
  then show ?case by simp
next
  case (Cons row rest)
  then show ?case
    by (auto split: list.splits)
qed

lemma add_indices_frame:
  "add_indices idx b = (r, b') \<Longrightarrow>
     same_config b b' \<and> matrix_samples b' = matrix_samples b \<and>
     prefix (matrix_indices b) (matrix_indices b')"
proof (cases idx)
  case Nil
  assume "add_indices idx b = (r, b')"
  with Nil show ?thesis by (simp add: add_indices_def)
next
  case (Cons first rest)
  assume *: "add_indices idx b = (r, b')"
  show ?thesis
  proof (cases "length first = 2")
    case True
    with * Cons have "append_biosphere idx b = (r, b')"
      by (simp add: add_indices_def)
    then show ?thesis by (rule append_biosphere_frame)
  next
    case False
    with * Cons have "b' = b\<lparr>matrix_indices := matrix_indices b @ idx\<rparr>"
      by (simp add: add_indices_def)
    then show ?thesis by (simp add: same_config_def)
  qed
qed

lemma add_indices_Inr:
  "add_indices idx b = (Inr u, b') \<Longrightarrow>
     idx \<noteq> [] \<and> length (matrix_indices b') = length (matrix_indices b) + length idx"
proof (cases idx)
  case Nil
  assume "add_indices idx b = (Inr u, b')"
  with Nil show ?thesis by (simp add: add_indices_def)
next
  case (Cons first rest)
  assume *: "add_indices idx b = (Inr u, b')"
  show ?thesis
  proof (cases "length first = 2")
    case True
    with * Cons have "append_biosphere idx b = (Inr u, b')"
      by (simp add: add_indices_def)
    from append_biosphere_Inr [OF this] Cons show ?thesis by simp
  next
    case False
    with * Cons have "b' = b\<lparr>matrix_indices := matrix_indices b @ idx\<rparr>"
      by (simp add: add_indices_def)
    with Cons show ?thesis by simp
  qed
qed

lemma add_indices_pairs:
  "matrix_indices (snd (add_indices (map (\<lambda>(f, a). [f, a]) pairs) b)) =
     matrix_indices b @ map (\<lambda>(f, a). [f, a, Str ''biosphere'']) pairs"
proof (cases pairs)
  case Nil
  then show ?thesis by (simp add: add_indices_def)
next
  case (Cons p ps)
  have "\<forall>row\<in>set (map (\<lambda>(f, a). [f, a]) pairs). 2 \<le> length row"
    by auto
  note ok = append_biosphere_ok [OF this, of b]
  have "add_indices (map (\<lambda>(f, a). [f, a]) pairs) b = append_biosphere (map (\<lambda>(f, a). [f, a]) pairs) b"
    using Cons by (simp add: add_indices_def split: prod.splits)
  with ok show ?thesis
    by (simp add: comp_def case_prod_unfold)
qed

lemma add_indices_triples:
  "\<forall>row\<in>set idx. length row = 3 \<Longrightarrow>
     matrix_indices (snd (add_indices idx b)) = matrix_indices b @ idx"
  by (cases idx) (auto simp: add_indices_def)

lemma add_block_frame:
  "add_block blk b = (r, b') \<Longrightarrow>
     same_config b b' \<and> matrix_indices b' = matrix_indices b \<and>
     prefix (sample_rows b) (sample_rows b')"
  by (auto simp: add_block_def sample_rows_def concatenate_def same_config_def
           split: option.splits sum.splits if_splits)

lemma add_block_Inr:
  "add_block blk b = (Inr u, b') \<Longrightarrow>
     sample_rows b' = sample_rows b @ rows blk \<and> matrix_samples b' \<noteq> None \<and>
     (\<forall>m. matrix_samples b = Some m \<longrightarrow>
        ncols blk = ncols m \<and> (\<exists>m'. matrix_samples b' = Some m' \<and> ncols m' = ncols m))"
  by (auto simp: add_block_def sample_rows_def concatenate_def split: option.splits sum.splits if_splits)

lemma add_block_mismatch:
  "matrix_samples b = Some m \<Longrightarrow> ncols blk \<noteq> ncols m \<Longrightarrow>
     add_block blk b =
       (Inl (ValueError ''all the input array dimensions except for the concatenation axis must match exactly''), b)"
  by (simp add: add_block_def concatenate_def)

lemma add_data_frame:
  assumes "add_data data b = (r, b')"
  shows "same_config b b' \<and> prefix (matrix_indices b) (matrix_indices b') \<and>
         prefix (sample_rows b) (sample_rows b')"
proof -
  obtain r1 b1 where 1: "add_indices (snd data) b = (r1, b1)"
    by (cases "add_indices (snd data) b")
  note f1 = add_indices_frame [OF 1]
  then have s1: "sample_rows b1 = sample_rows b"
    by (simp add: sample_rows_def)
  show ?thesis
  proof (cases r1)
    case (Inl e)
    with assms 1 have "b' = b1" by (simp add: add_data_def)
    with f1 s1 show ?thesis by simp
  next
    case (Inr u)
    with assms 1 have "add_block (fst data) b1 = (r, b')" by (simp add: add_data_def)
    from add_block_frame [OF this] f1 s1 show ?thesis
      by (auto intro: same_config_trans)
  qed
qed

lemma add_data_Inr:
  assumes "add_data data b = (Inr u, b')"
  shows "sample_rows b' = sample_rows b @ rows (fst data)"
    and "length (matrix_indices b') = length (matrix_indices b) + length (snd data)"
    and "matrix_samples b' \<noteq> None" and "snd data \<noteq> []"
    and "matrix_samples b = Some m \<Longrightarrow>
           ncols (fst data) = ncols m \<and> (\<exists>m'. matrix_samples b' = Some m' \<and> ncols m' = ncols m)"
proof -
  obtain r1 b1 where 1: "add_indices (snd data) b = (r1, b1)"
    by (cases "add_indices (snd data) b")
  with assms obtain u1 where r1: "r1 = Inr u1"
    by (cases r1) (auto simp: add_data_def)
  with assms 1 have 2: "add_block (fst data) b1 = (Inr u, b')"
    by (simp add: add_data_def)
  note f1 = add_indices_frame [OF 1] and i1 = add_indices_Inr [OF 1 [unfolded r1]]
  note f2 = add_block_frame [OF 2] and i2 = add_block_Inr [OF 2]
  from f1 have s1: "sample_rows b1 = sample_rows b"
    by (simp add: sample_rows_def)
  from i2 s1 show "sample_rows b' = sample_rows b @ rows (fst data)" by simp
  from i1 f2 show "length (matrix_indices b') = length (matrix_indices b) + length (snd data)" by simp
  from i2 show "matrix_samples b' \<noteq> None" by simp
  from i1 show "snd data \<noteq> []" by simp
  show "ncols (fst data) = ncols m \<and> (\<exists>m'. matrix_samples b' = Some m' \<and> ncols m' = ncols m)"
    if "matrix_samples b = Some m"
    using that f1 i2 by simp
qed

lemma consume_frame:
  "consume yielded stop b = (r, b') \<Longrightarrow>
     same_config b b' \<and> prefix (matrix_indices b) (matrix_indices b') \<and>
     prefix (sample_rows b) (sample_rows b')"
proof (induction yielded arbitrary: b)
  case Nil
  then show ?case by (cases stop) auto
next
  case (Cons data rest)
  obtain r1 b1 where 1: "add_data data b = (r1, b1)"
    by (cases "add_data data b")
  note f1 = add_data_frame [OF 1]
  show ?case
  proof (cases r1)
    case (Inl e)
    with Cons.prems 1 have "b' = b1" by simp
    with f1 show ?thesis by simp
  next
    case (Inr u)
    with Cons.prems 1 have "consume rest stop b1 = (r, b')" by simp
    from Cons.IH [OF this] f1 show ?thesis
      by (auto intro: same_config_trans prefix_order.trans)
  qed
qed

lemma consume_Inr:
  "consume yielded stop b = (Inr u, b') \<Longrightarrow>
     stop = None \<and>
     sample_rows b' = sample_rows b @ concat (map (\<lambda>d. rows (fst d)) yielded) \<and>
     length (matrix_indices b') =
       length (matrix_indices b) + sum_list (map (\<lambda>d. length (snd d)) yielded) \<and>
     (yielded \<noteq> [] \<longrightarrow> matrix_samples b' \<noteq> None \<and> matrix_indices b' \<noteq> []) \<and>
     (\<forall>m. matrix_samples b = Some m \<longrightarrow>
        (\<forall>d\<in>set yielded. ncols (fst d) = ncols m) \<and>
        (\<exists>m'. matrix_samples b' = Some m' \<and> ncols m' = ncols m))"
proof (induction yielded arbitrary: b)
  case Nil
  then show ?case by (cases stop) auto
next
  case (Cons data rest)
  obtain r1 b1 where 1: "add_data data b = (r1, b1)"
    by (cases "add_data data b")
  with Cons.prems obtain u1 where r1: "r1 = Inr u1"
    by (cases r1) auto
  with Cons.prems 1 have 2: "consume rest stop b1 = (Inr u, b')"
    by simp
  note d = add_data_Inr [OF 1 [unfolded r1]]
  note ih = Cons.IH [OF 2]
  from d(3) obtain m1 where m1: "matrix_samples b1 = Some m1"
    by auto
  with ih have some: "\<exists>m'. matrix_samples b' = Some m'"
    by blast
  from d(2,4) ih have nonempty: "matrix_indices b' \<noteq> []"
    by (cases "snd data") auto
  have cols: "(\<forall>d\<in>set (data # rest). ncols (fst d) = ncols m) \<and>
        (\<exists>m'. matrix_samples b' = Some m' \<and> ncols m' = ncols m)"
    if m: "matrix_samples b = Some m" for m
  proof -
    from d(5) [OF m] obtain m' where "ncols (fst data) = ncols m" "matrix_samples b1 = Some m'" "ncols m' = ncols m"
      by blast
    with ih show ?thesis by auto
  qed
  from ih d(1,2) some nonempty cols show ?case
    by simp
qed

lemma consume_append:
  "consume (ys @ zs) stop b =
     (case consume ys None b of
        (Inl e, b') \<Rightarrow> (Inl e, b')
      | (Inr u, b') \<Rightarrow> consume zs stop b')"
  by (induction ys arbitrary: b) (auto split: prod.splits sum.splits)


lemma add_samples_for_act_frame:
  "add_samples_for_act generate_samples act_key iterations b = (r, b') \<Longrightarrow>
     same_config b b' \<and> prefix (matrix_indices b) (matrix_indices b') \<and>
     prefix (sample_rows b) (sample_rows b')"
  by (auto simp: add_samples_for_act_def split: prod.splits dest: consume_frame)

lemma add_samples_for_act_Inr:
  assumes "add_samples_for_act generate_samples act_key iterations b = (Inr u, b')"
  shows "consume (fst (generate_samples b act_key iterations)) None b = (Inr u, b')"
proof -
  obtain yielded stop where g: "generate_samples b act_key iterations = (yielded, stop)"
    by (cases "generate_samples b act_key iterations")
  with assms have c: "consume yielded stop b = (Inr u, b')"
    by (simp add: add_samples_for_act_def)
  from consume_Inr [OF c] have "stop = None" by simp
  with c g show ?thesis by simp
qed

lemma add_samples_calls_frame:
  "add_samples_calls generate_samples calls b = (r, b') \<Longrightarrow>
     same_config b b' \<and> prefix (matrix_indices b) (matrix_indices b') \<and>
     prefix (sample_rows b) (sample_rows b')"
proof (induction calls arbitrary: b)
  case Nil
  then show ?case by simp
next
  case (Cons call calls)
  obtain r1 b1 where 1: "add_samples_for_act generate_samples (fst call) (snd call) b = (r1, b1)"
    by (cases "add_samples_for_act generate_samples (fst call) (snd call) b")
  note f1 = add_samples_for_act_frame [OF 1]
  show ?case
  proof (cases r1)
    case (Inl e)
    with Cons.prems 1 have "b' = b1" by simp
    with f1 show ?thesis by simp
  next
    case (Inr u)
    with Cons.prems 1 have "add_samples_calls generate_samples calls b1 = (r, b')" by simp
    from Cons.IH [OF this] f1 show ?thesis
      by (auto intro: same_config_trans prefix_order.trans)
  qed
qed

lemma add_samples_calls_Inr:
  "add_samples_calls generate_samples calls b = (Inr u, b') \<Longrightarrow>
     sample_rows b' =
       sample_rows b @ concat (map (\<lambda>d. rows (fst d)) (yielded_during generate_samples calls b)) \<and>
     length (matrix_indices b') =
       length (matrix_indices b) +
       sum_list (map (\<lambda>d. length (snd d)) (yielded_during generate_samples calls b))"
proof (induction calls arbitrary: b)
  case Nil
  then show ?case by simp
next
  case (Cons call calls)
  obtain r1 b1 where 1: "add_samples_for_act generate_samples (fst call) (snd call) b = (r1, b1)"
    by (cases "add_samples_for_act generate_samples (fst call) (snd call) b")
  with Cons.prems obtain u1 where r1: "r1 = Inr u1"
    by (cases r1) auto
  with Cons.prems 1 have 2: "add_samples_calls generate_samples calls b1 = (Inr u, b')"
    by simp
  note c = consume_Inr [OF add_samples_for_act_Inr [OF 1 [unfolded r1]]]
  from Cons.IH [OF 2] c 1 show ?case
    by simp
qed

lemma add_samples_calls_append:
  "add_samples_calls generate_samples (calls @ later) b =
     (case add_samples_calls generate_samples calls b of
        (Inl e, b') \<Rightarrow> (Inl e, b')
      | (Inr u, b') \<Rightarrow> add_samples_calls generate_samples later b')"
  by (induction calls arbitrary: b) (auto split: prod.splits sum.splits)

lemmas ex_eval =
  add_samples_for_act_def ex_generate_samples_def Let_def add_data_def add_indices_def
  add_block_def concatenate_def ex_fresh_def

lemma spec_normalized_2:
  "\<forall>row\<in>set idx. length row = 2 \<Longrightarrow>
     spec_normalized idx = map (\<lambda>row. [row ! 0, row ! 1, Str ''biosphere'']) idx"
proof -
  have "(case row of [f, a] \<Rightarrow> [f, a, Str ''biosphere''] | _ \<Rightarrow> row) = [row ! 0, row ! 1, Str ''biosphere'']"
    if "length row = 2" for row :: index_row
  proof -
    from that obtain f a where "row = [f, a]"
      by (cases row; cases "tl row") auto
    then show ?thesis by simp
  qed
  then show "\<forall>row\<in>set idx. length row = 2 \<Longrightarrow> ?thesis"
    by (simp add: spec_normalized_def)
qed

lemma spec_normalized_3:
  "\<forall>row\<in>set idx. length row = 3 \<Longrightarrow> spec_normalized idx = idx"
proof -
  have "(case row of [f, a] \<Rightarrow> [f, a, Str ''biosphere''] | _ \<Rightarrow> row) = row"
    if "length row = 3" for row :: index_row
    using that by (auto split: list.splits)
  then show "\<forall>row\<in>set idx. length row = 3 \<Longrightarrow> ?thesis"
    by (simp add: spec_normalized_def map_idI)
qed

lemma length_spec_normalized [simp]: "length (spec_normalized idx) = length idx"
  by (simp add: spec_normalized_def)

lemma add_indices_homogeneous:
  assumes "(\<forall>row\<in>set idx. length row = 2) \<or> (\<forall>row\<in>set idx. length row = 3)"
  shows "matrix_indices (snd (add_indices idx b)) = matrix_indices b @ spec_normalized idx"
proof (cases idx)
  case Nil
  then show ?thesis by (simp add: add_indices_def spec_normalized_def)
next
  case (Cons first rest)
  from assms show ?thesis
  proof
    assume 2: "\<forall>row\<in>set idx. length row = 2"
    then have "\<forall>row\<in>set idx. 2 \<le> length row" by simp
    from append_biosphere_ok [OF this, of b] 2 Cons show ?thesis
      by (simp add: add_indices_def spec_normalized_2)
  next
    assume 3: "\<forall>row\<in>set idx. length row = 3"
    with Cons show ?thesis
      by (simp add: add_indices_def spec_normalized_3)
  qed
qed

lemma add_indices_contract:
  assumes "contract_block idx"
  shows "add_indices idx b = (Inr (), b\<lparr>matrix_indices := matrix_indices b @ spec_normalized idx\<rparr>)"
proof -
  from assms obtain first rest where Cons: "idx = first # rest"
    by (cases idx) (auto simp: contract_block_def)
  from assms consider "\<forall>row\<in>set idx. length row = 2" | "\<forall>row\<in>set idx. length row = 3"
    by (auto simp: contract_block_def)
  then show ?thesis
  proof cases
    case 1
    then have "\<forall>row\<in>set idx. 2 \<le> length row" by simp
    from append_biosphere_ok [OF this, of b] 1 Cons show ?thesis
      by (simp add: add_indices_def spec_normalized_2)
  next
    case 2
    with Cons show ?thesis
      by (simp add: add_indices_def spec_normalized_3)
  qed
qed

lemma add_data_indices:
  "matrix_indices (snd (add_data data b)) = matrix_indices (snd (add_indices (snd data) b))"
proof -
  obtain r1 b1 where 1: "add_indices (snd data) b = (r1, b1)"
    by (cases "add_indices (snd data) b")
  show ?thesis
  proof (cases r1)
    case (Inl e)
    with 1 show ?thesis by (simp add: add_data_def)
  next
    case (Inr u)
    obtain r2 b2 where 2: "add_block (fst data) b1 = (r2, b2)"
      by (cases "add_block (fst data) b1")
    from add_block_frame [OF 2] 1 2 Inr show ?thesis
      by (simp add: add_data_def)
  qed
qed

lemma consume_indices:
  "consume yielded stop b = (Inr u, b') \<Longrightarrow>
   \<forall>d\<in>set yielded. (\<forall>row\<in>set (snd d). length row = 2) \<or> (\<forall>row\<in>set (snd d). length row = 3) \<Longrightarrow>
     matrix_indices b' = matrix_indices b @ concat (map (\<lambda>d. spec_normalized (snd d)) yielded)"
proof (induction yielded arbitrary: b)
  case Nil
  then show ?case by (cases stop) auto
next
  case (Cons data rest)
  obtain r1 b1 where 1: "add_data data b = (r1, b1)"
    by (cases "add_data data b")
  with Cons.prems(1) obtain u1 where r1: "r1 = Inr u1"
    by (cases r1) auto
  with Cons.prems(1) 1 have 2: "consume rest stop b1 = (Inr u, b')"
    by simp
  from Cons.prems(2) have "(\<forall>row\<in>set (snd data). length row = 2) \<or> (\<forall>row\<in>set (snd data). length row = 3)"
    by simp
  from add_indices_homogeneous [OF this, of b] add_data_indices [of data b] 1
  have "matrix_indices b1 = matrix_indices b @ spec_normalized (snd data)"
    by simp
  with Cons.IH [OF 2] Cons.prems(2) show ?case
    by simp
qed

lemma add_data_contract:
  assumes "matrix_samples b = Some m" and "ncols (fst data) = ncols m" and "contract_block (snd data)"
  shows "add_data data b =
           (Inr (), b\<lparr>matrix_indices := matrix_indices b @ spec_normalized (snd data),
                      matrix_samples := Some (NDArray (ncols m) (rows m @ rows (fst data)))\<rparr>)"
  using assms by (simp add: add_data_def add_indices_contract add_block_def concatenate_def)

lemma consume_contract:
  "matrix_samples b = Some m \<Longrightarrow>
   \<forall>d\<in>set pre. ncols (fst d) = ncols m \<and> contract_block (snd d) \<Longrightarrow>
     consume pre None b =
       (Inr (), b\<lparr>matrix_indices := matrix_indices b @ concat (map (\<lambda>d. spec_normalized (snd d)) pre),
                  matrix_samples := Some (NDArray (ncols m) (rows m @ concat (map (\<lambda>d. rows (fst d)) pre)))\<rparr>)"
proof (induction pre arbitrary: b m)
  case Nil
  then show ?case by (cases m) simp
next
  case (Cons data rest)
  let ?b1 = "b\<lparr>matrix_indices := matrix_indices b @ spec_normalized (snd data),
                matrix_samples := Some (NDArray (ncols m) (rows m @ rows (fst data)))\<rparr>"
  from Cons.prems have 1: "add_data data b = (Inr (), ?b1)"
    by (simp add: add_data_contract)
  have "matrix_samples ?b1 = Some (NDArray (ncols m) (rows m @ rows (fst data)))"
    by simp
  from Cons.IH [OF this] Cons.prems(2) 1 show ?case
    by simp
qed

lemma add_data_mismatch:
  assumes "matrix_samples b = Some m" and "ncols (fst data) \<noteq> ncols m" and "contract_block (snd data)"
  shows "add_data data b =
           (Inl (ValueError ''all the input array dimensions except for the concatenation axis must match exactly''),
            b\<lparr>matrix_indices := matrix_indices b @ spec_normalized (snd data)\<rparr>)"
  using assms by (simp add: add_data_def add_indices_contract add_block_def concatenate_def)

lemma consume_mismatch:
  assumes m: "matrix_samples b = Some m"
    and pre: "\<forall>d\<in>set pre. ncols (fst d) = ncols m \<and> contract_block (snd d)"
    and idx: "contract_block idx"
    and blk: "ncols blk \<noteq> ncols m"
  shows "consume (pre @ (blk, idx) # post) stop b =
           (Inl (ValueError ''all the input array dimensions except for the concatenation axis must match exactly''),
            b\<lparr>matrix_indices :=
                 matrix_indices b @ concat (map (\<lambda>d. spec_normalized (snd d)) pre) @ spec_normalized idx,
               matrix_samples := Some (NDArray (ncols m) (rows m @ concat (map (\<lambda>d. rows (fst d)) pre)))\<rparr>)"
proof -
  let ?b1 = "b\<lparr>matrix_indices := matrix_indices b @ concat (map (\<lambda>d. spec_normalized (snd d)) pre),
                matrix_samples := Some (NDArray (ncols m) (rows m @ concat (map (\<lambda>d. rows (fst d)) pre)))\<rparr>"
  have 1: "consume pre None b = (Inr (), ?b1)"
    using m pre by (rule consume_contract)
  have "matrix_samples ?b1 = Some (NDArray (ncols m) (rows m @ concat (map (\<lambda>d. rows (fst d)) pre)))"
    by simp
  from add_data_mismatch [OF this, of "(blk, idx)"] idx blk
  have 2: "add_data (blk, idx) ?b1 =
      (Inl (ValueError ''all the input array dimensions except for the concatenation axis must match exactly''),
       ?b1\<lparr>matrix_indices := matrix_indices ?b1 @ spec_normalized idx\<rparr>)"
    by simp
  show ?thesis
    unfolding consume_append 1 by (simp add: 2)
qed


lemma ex_call_100:
  "add_samples_for_act ex_generate_samples (ByKey (''db'', ''a1'')) 100 ex_fresh =
     (Inr (),
      ex_fresh\<lparr>matrix_indices :=
                 [[Key (''biosphere3'', ''f1''), Key (''db'', ''a1''), Str ''biosphere''],
                  [Key (''biosphere3'', ''f2''), Key (''db'', ''a1''), Str ''biosphere'']],
               matrix_samples := Some (NDArray 100 [replicate 100 1, replicate 100 2])\<rparr>)"
  by (simp add: ex_eval)

lemma for_act_keys_frame:
  "for_act_keys generate_samples env iterations act_keys b = (r, b') \<Longrightarrow>
     same_config b b' \<and> prefix (matrix_indices b) (matrix_indices b') \<and>
     prefix (sample_rows b) (sample_rows b')"
proof (induction act_keys arbitrary: b)
  case Nil
  then show ?case by simp
next
  case (Cons act_key rest)
  show ?case
  proof (cases "get_activity env act_key")
    case (Inl e)
    with Cons.prems show ?thesis by simp
  next
    case (Inr act)
    obtain r1 b1 where 1: "add_samples_for_act generate_samples (ByActivity act) iterations b = (r1, b1)"
      by (cases "add_samples_for_act generate_samples (ByActivity act) iterations b")
    note f1 = add_samples_for_act_frame [OF 1]
    show ?thesis
    proof (cases r1)
      case (Inl e)
      with Cons.prems Inr 1 have "b' = b1" by simp
      with f1 show ?thesis by simp
    next
      case r1: (Inr u)
      with Cons.prems Inr 1 have "for_act_keys generate_samples env iterations rest b1 = (r, b')"
        by simp
      from Cons.IH [OF this] f1 show ?thesis
        by (auto intro: same_config_trans prefix_order.trans)
    qed
  qed
qed

lemma for_act_keys_append:
  "for_act_keys generate_samples env iterations (before @ rest) b =
     (case for_act_keys generate_samples env iterations before b of
        (Inl e, b') \<Rightarrow> (Inl e, b')
      | (Inr u, b') \<Rightarrow> for_act_keys generate_samples env iterations rest b')"
  by (induction before arbitrary: b) (auto split: prod.splits sum.splits)

lemma for_act_keys_calls:
  "map (get_activity env) act_keys = map Inr acts \<Longrightarrow>
     for_act_keys generate_samples env iterations act_keys b =
       add_samples_calls generate_samples (map (\<lambda>act. (ByActivity act, iterations)) acts) b"
proof (induction act_keys arbitrary: acts b)
  case Nil
  then show ?case by simp
next
  case (Cons act_key rest)
  then obtain act acts' where acts: "acts = act # acts'" and a: "get_activity env act_key = Inr act"
    and r: "map (get_activity env) rest = map Inr acts'"
    by (cases acts) auto
  from Cons.IH [OF r] a acts show ?case
    by (auto split: prod.splits sum.splits)
qed


lemma ex_get_activity:
  "get_activity ex_bd (''db'', ''a1'') = Inr \<lparr>key = (''db'', ''a1''), name = ''logging''\<rparr>"
  "get_activity ex_bd (''db'', ''a2'') = Inr \<lparr>key = (''db'', ''a2''), name = ''farming''\<rparr>"
  by (simp_all add: ex_bd_def ex_acts_def)

lemma ex_act_keys: "map key (Database ex_bd (database_name ex_fresh)) = [(''db'', ''a1''), (''db'', ''a2'')]"
  by (simp add: ex_bd_def ex_acts_def ex_fresh_def)

lemma ex_raising_first:
  "for_act_keys ex_generate_raising ex_bd 3 [(''db'', ''a1'')] ex_fresh =
     (Inr (),
      ex_fresh\<lparr>matrix_indices :=
                 [[Key (''biosphere3'', ''f1''), Key (''db'', ''a1''), Str ''biosphere''],
                  [Key (''biosphere3'', ''f2''), Key (''db'', ''a1''), Str ''biosphere'']],
               matrix_samples := Some (NDArray 3 [replicate 3 1, replicate 3 2])\<rparr>)"
  by (simp add: ex_get_activity ex_generate_raising_def ex_eval)

lemma create_presamples_self:
  "self (snd (create_presamples split_inventory_presamples create_presamples_package
                name' id' overwrite dirpath seed' w)) = self w"
  by (simp add: create_presamples_def split: sum.splits prod.splits)

lemma ex_call_3:
  "add_samples_for_act ex_generate_samples (ByKey (''db'', ''a1'')) 3 ex_fresh =
     (Inr (),
      ex_fresh\<lparr>matrix_indices :=
                 [[Key (''biosphere3'', ''f1''), Key (''db'', ''a1''), Str ''biosphere''],
                  [Key (''biosphere3'', ''f2''), Key (''db'', ''a1''), Str ''biosphere'']],
               matrix_samples := Some (NDArray 3 [replicate 3 1, replicate 3 2])\<rparr>)"
  by (simp add: ex_eval)

subsection \<open>Construction\<close>

text \<open>
  Claim C3. Every balancer that \<^verbatim>\<open>__init__\<close> constructs, whatever the pattern sequences,
  has \<open>all_land_keys\<close> equal to \<open>land_in_keys\<close> followed by \<open>land_out_keys\<close>, in that order;
  in particular its length is the sum of the two lengths.
\<close>

theorem land_keys_concatenation:
  assumes "init env database_name' biosphere' group' land_from_patterns land_to_patterns = Inr b"
  shows "all_land_keys b = land_in_keys b @ land_out_keys b \<and>
         length (all_land_keys b) = length (land_in_keys b) + length (land_out_keys b)"
  using assms by (auto simp: init_def Let_def split: if_splits)

theorem land_keys_concatenation_witness:
  "init_default ex_bd ''db'' = Inr ex_fresh \<and>
   all_land_keys ex_fresh = land_in_keys ex_fresh @ land_out_keys ex_fresh \<and>
   length (all_land_keys ex_fresh) = length (land_in_keys ex_fresh) + length (land_out_keys ex_fresh)"
proof -
  have h: "init ex_bd ''db'' ''biosphere3'' ''land'' [''Transformation, from''] [''Transformation, to''] = Inr ex_fresh"
    using ex_init by (simp add: init_default_def)
  from land_keys_concatenation [OF h] ex_init show ?thesis by simp
qed

text \<open>
  Claim C4. For every biosphere registry and all pattern sequences, \<open>land_in_keys\<close> lists
  the flows of the registry in iteration order, each flow's key once for every "from"
  pattern its name contains (so not at all when it contains none, and twice when it
  contains two), and \<open>land_out_keys\<close> does the same with the "to" patterns. As sets, the
  two lists hold exactly the keys of the flows whose name contains at least one pattern
  of the category.
\<close>

theorem classifier_one_entry_per_match:
  assumes "init env database_name' biosphere' group' land_from_patterns land_to_patterns = Inr b"
  shows "land_in_keys b =
           concat (map (\<lambda>ef. replicate (length (filter (\<lambda>p. sublist p (name ef)) land_from_patterns)) (key ef))
                       (Database env biosphere')) \<and>
         land_out_keys b =
           concat (map (\<lambda>ef. replicate (length (filter (\<lambda>p. sublist p (name ef)) land_to_patterns)) (key ef))
                       (Database env biosphere')) \<and>
         set (land_in_keys b) =
           key ` {ef \<in> set (Database env biosphere'). \<exists>p\<in>set land_from_patterns. sublist p (name ef)} \<and>
         set (land_out_keys b) =
           key ` {ef \<in> set (Database env biosphere'). \<exists>p\<in>set land_to_patterns. sublist p (name ef)}"
proof -
  have set_eq: "set (concat (map (\<lambda>ef. replicate (length (filter (\<lambda>p. sublist p (name ef)) ps)) (key ef)) efs)) =
        key ` {ef \<in> set efs. \<exists>p\<in>set ps. sublist p (name ef)}" for ps :: "string list" and efs :: "dataset list"
    by (fastforce simp: filter_empty_conv image_iff)
  from assms have b: "land_in_keys b = classify (Database env biosphere') land_from_patterns []"
    "land_out_keys b = classify (Database env biosphere') land_to_patterns []"
    by (auto simp: init_def Let_def split: if_splits)
  show ?thesis
    unfolding b classify_eq append_Nil set_eq by simp
qed

theorem classifier_one_entry_per_match_witness:
  "init ex_bd ''db'' ''biosphere3'' ''land'' [''Transformation, from'', ''from forest''] [''Transformation, to'']
     = Inr (ex_fresh\<lparr>land_in_keys := [(''biosphere3'', ''f1''), (''biosphere3'', ''f1'')],
                     all_land_keys := [(''biosphere3'', ''f1''), (''biosphere3'', ''f1''), (''biosphere3'', ''f2'')]\<rparr>) \<and>
   land_in_keys (ex_fresh\<lparr>land_in_keys := [(''biosphere3'', ''f1''), (''biosphere3'', ''f1'')],
                     all_land_keys := [(''biosphere3'', ''f1''), (''biosphere3'', ''f1''), (''biosphere3'', ''f2'')]\<rparr>) =
     replicate 2 (''biosphere3'', ''f1'') @ replicate 0 (''biosphere3'', ''f2'') @ replicate 0 (''biosphere3'', ''f3'')"
proof -
  have h: "init ex_bd ''db'' ''biosphere3'' ''land'' [''Transformation, from'', ''from forest''] [''Transformation, to'']
     = Inr (ex_fresh\<lparr>land_in_keys := [(''biosphere3'', ''f1''), (''biosphere3'', ''f1'')],
                     all_land_keys := [(''biosphere3'', ''f1''), (''biosphere3'', ''f1''), (''biosphere3'', ''f2'')]\<rparr>)"
    by (simp add: init_def Let_def ex_bd_def ex_flows_def ex_fresh_def sublist_code)
  from classifier_one_entry_per_match [OF h] h show ?thesis
    by (simp add: ex_bd_def ex_flows_def sublist_code numeral_2_eq_2)
qed

text \<open>
  Claim C5. Construction with a database name that is not in \<^verbatim>\<open>bd.databases\<close> raises
  ValueError naming that database; with a registered database name and an unregistered
  biosphere name it raises ValueError naming the biosphere. In both cases the outcome is
  the exception alone: no balancer exists. When both names are registered, construction
  succeeds with \<open>matrix_indices = []\<close> and \<open>matrix_samples\<close> unset.
\<close>

theorem construction_validates_databases:
  "(database_name' \<notin> set (databases env) \<longrightarrow>
      (init env database_name' biosphere' group' land_from_patterns land_to_patterns :: error + 'v balancer) =
        Inl (ValueError (''Database '' @ database_name' @ '' not imported''))) \<and>
   (database_name' \<in> set (databases env) \<and> biosphere' \<notin> set (databases env) \<longrightarrow>
      (init env database_name' biosphere' group' land_from_patterns land_to_patterns :: error + 'v balancer) =
        Inl (ValueError (''Database '' @ biosphere' @ '' not imported''))) \<and>
   (database_name' \<in> set (databases env) \<and> biosphere' \<in> set (databases env) \<longrightarrow>
      (\<exists>b :: 'v balancer. init env database_name' biosphere' group' land_from_patterns land_to_patterns = Inr b \<and>
           matrix_indices b = [] \<and> matrix_samples b = None))"
  by (simp add: init_def Let_def not_imported_def)

theorem construction_validates_databases_witness:
  "''nowhere'' \<notin> set (databases ex_bd) \<and>
   (init_default ex_bd ''nowhere'' :: error + int balancer) = Inl (ValueError ''Database nowhere not imported'') \<and>
   ''db'' \<in> set (databases ex_bd) \<and> ''biosphere2'' \<notin> set (databases ex_bd) \<and>
   (init ex_bd ''db'' ''biosphere2'' ''land'' [''Transformation, from''] [''Transformation, to''] :: error + int balancer) =
      Inl (ValueError ''Database biosphere2 not imported'') \<and>
   ''biosphere3'' \<in> set (databases ex_bd) \<and>
   (\<exists>b :: int balancer. init_default ex_bd ''db'' = Inr b \<and> matrix_indices b = [] \<and> matrix_samples b = None)"
  using construction_validates_databases [of "''nowhere''" ex_bd "''biosphere3''" "''land''" "[''Transformation, from'']" "[''Transformation, to'']", where ?'v = int]
    construction_validates_databases [of "''db''" ex_bd "''biosphere2''" "''land''" "[''Transformation, from'']" "[''Transformation, to'']", where ?'v = int]
    construction_validates_databases [of "''db''" ex_bd "''biosphere3''" "''land''" "[''Transformation, from'']" "[''Transformation, to'']", where ?'v = int]
  by (simp add: ex_bd_def init_default_def)

subsection \<open>Accumulation\<close>

text \<open>
  Claim C1. Take a freshly constructed balancer and any sequence of \<^verbatim>\<open>add_samples_for_act\<close>
  calls that all return. After every prefix \<open>calls\<close> of that sequence, the number of rows
  of the Sample Matrix (none while it is unset) is the sum of the row counts of all the
  numeric blocks yielded so far; if every index block yielded so far has as many entries
  as its numeric block has rows, the Index list is exactly as long as the Sample Matrix
  has rows; and both structures only grow: what they hold after the prefix is an initial
  segment of what they hold at the end of the sequence.
\<close>

theorem accumulation_invariant:
  assumes "init env database_name' biosphere' group' land_from_patterns land_to_patterns = Inr b0"
    and "add_samples_calls generate_samples (calls @ later) b0 = (Inr (), b_end)"
  shows "\<exists>b. add_samples_calls generate_samples calls b0 = (Inr (), b) \<and>
           length (sample_rows b) =
             sum_list (map (\<lambda>d. nrows (fst d)) (yielded_during generate_samples calls b0)) \<and>
           ((\<forall>d\<in>set (yielded_during generate_samples calls b0). length (snd d) = nrows (fst d)) \<longrightarrow>
              length (matrix_indices b) = length (sample_rows b)) \<and>
           prefix (matrix_indices b) (matrix_indices b_end) \<and>
           prefix (sample_rows b) (sample_rows b_end)"
proof -
  from assms(1) have fresh: "matrix_indices b0 = []" "sample_rows b0 = []"
    by (auto simp: init_def Let_def sample_rows_def split: if_splits)
  obtain r b where 1: "add_samples_calls generate_samples calls b0 = (r, b)"
    by (cases "add_samples_calls generate_samples calls b0")
  with assms(2) have r: "r = Inr ()" and 2: "add_samples_calls generate_samples later b = (Inr (), b_end)"
    by (auto simp: add_samples_calls_append split: sum.splits)
  note acc = add_samples_calls_Inr [OF 1 [unfolded r]]
  have len: "length (concat (map (\<lambda>d. rows (fst d)) ys)) = sum_list (map (\<lambda>d. nrows (fst d)) ys)"
    for ys :: "'a data list"
    by (simp add: length_concat comp_def nrows_def)
  have eq: "sum_list (map (\<lambda>d. length (snd d)) ys) = sum_list (map (\<lambda>d. nrows (fst d)) ys)"
    if "\<forall>d\<in>set ys. length (snd d) = nrows (fst d)" for ys :: "'a data list"
    using that by (induction ys) auto
  from acc fresh len eq add_samples_calls_frame [OF 2] 1 r show ?thesis
    by auto
qed


theorem accumulation_invariant_witness:
  "init_default ex_bd ''db'' = Inr ex_fresh \<and>
   fst (add_samples_calls ex_generate_samples
          ([(ByKey (''db'', ''a1''), 3)] @ [(ByKey (''db'', ''a2''), 3)]) ex_fresh) = Inr () \<and>
   yielded_during ex_generate_samples [(ByKey (''db'', ''a1''), 3)] ex_fresh =
     [(NDArray 3 [replicate 3 1, replicate 3 2],
       [[Key (''biosphere3'', ''f1''), Key (''db'', ''a1'')], [Key (''biosphere3'', ''f2''), Key (''db'', ''a1'')]])] \<and>
   (\<exists>b. add_samples_calls ex_generate_samples [(ByKey (''db'', ''a1''), 3)] ex_fresh = (Inr (), b) \<and>
        length (sample_rows b) = 2 \<and> length (matrix_indices b) = 2 \<and>
        prefix (matrix_indices b)
          (matrix_indices (snd (add_samples_calls ex_generate_samples
             ([(ByKey (''db'', ''a1''), 3)] @ [(ByKey (''db'', ''a2''), 3)]) ex_fresh))))"
proof -
  let ?calls = "[(ByKey (''db'', ''a1''), 3)]" and ?later = "[(ByKey (''db'', ''a2''), 3)]"
  have h1: "init ex_bd ''db'' ''biosphere3'' ''land'' [''Transformation, from''] [''Transformation, to''] = Inr ex_fresh"
    using ex_init by (simp add: init_default_def)
  have ok: "fst (add_samples_calls ex_generate_samples (?calls @ ?later) ex_fresh) = Inr ()"
    by (simp add: ex_eval)
  then have h2: "add_samples_calls ex_generate_samples (?calls @ ?later) ex_fresh =
      (Inr (), snd (add_samples_calls ex_generate_samples (?calls @ ?later) ex_fresh))"
    by (metis prod.collapse)
  have y: "yielded_during ex_generate_samples ?calls ex_fresh =
      [(NDArray 3 [replicate 3 1, replicate 3 2],
        [[Key (''biosphere3'', ''f1''), Key (''db'', ''a1'')], [Key (''biosphere3'', ''f2''), Key (''db'', ''a1'')]])]"
    by (simp add: ex_generate_samples_def Let_def ex_fresh_def)
  from accumulation_invariant [OF h1 h2] y ex_init ok show ?thesis
    by (auto simp: nrows_def)
qed

text \<open>
  Claim C2. For every pair the loop of \<^verbatim>\<open>add_samples_for_act\<close> receives, whatever the state
  of the balancer: an index block of 2-element tuples (flow key, activity key) is appended
  to \<open>matrix_indices\<close> entry by entry as (flow key, activity key, \<^verbatim>\<open>'biosphere'\<close>), and an
  index block of 3-element tuples is appended unchanged and in order. Hence after a call
  that returns, during which every yielded index block was of one of the two shapes,
  \<open>matrix_indices\<close> is its former value followed by the normalised entries of all yielded
  blocks, in the order yielded.
\<close>

theorem index_entries_normalised:
  "(snd data = map (\<lambda>(f, a). [f, a]) pairs \<longrightarrow>
      matrix_indices (snd (add_data data b)) =
        matrix_indices b @ map (\<lambda>(f, a). [f, a, Str ''biosphere'']) pairs) \<and>
   ((\<forall>row\<in>set (snd data). length row = 3) \<longrightarrow>
      matrix_indices (snd (add_data data b)) = matrix_indices b @ snd data) \<and>
   (add_samples_for_act generate_samples act_key iterations b = (Inr (), b') \<and>
    (\<forall>d\<in>set (fst (generate_samples b act_key iterations)).
       (\<forall>row\<in>set (snd d). length row = 2) \<or> (\<forall>row\<in>set (snd d). length row = 3)) \<longrightarrow>
      matrix_indices b' =
        matrix_indices b @
        concat (map (\<lambda>d. spec_normalized (snd d)) (fst (generate_samples b act_key iterations))))"
proof (intro conjI impI)
  assume "snd data = map (\<lambda>(f, a). [f, a]) pairs"
  then show "matrix_indices (snd (add_data data b)) =
      matrix_indices b @ map (\<lambda>(f, a). [f, a, Str ''biosphere'']) pairs"
    by (simp add: add_data_indices add_indices_pairs)
next
  assume "\<forall>row\<in>set (snd data). length row = 3"
  then show "matrix_indices (snd (add_data data b)) = matrix_indices b @ snd data"
    by (simp add: add_data_indices add_indices_triples)
next
  assume *: "add_samples_for_act generate_samples act_key iterations b = (Inr (), b') \<and>
    (\<forall>d\<in>set (fst (generate_samples b act_key iterations)).
       (\<forall>row\<in>set (snd d). length row = 2) \<or> (\<forall>row\<in>set (snd d). length row = 3))"
  then have "consume (fst (generate_samples b act_key iterations)) None b = (Inr (), b')"
    by (simp add: add_samples_for_act_Inr)
  from consume_indices [OF this] * show "matrix_indices b' =
        matrix_indices b @
        concat (map (\<lambda>d. spec_normalized (snd d)) (fst (generate_samples b act_key iterations)))"
    by blast
qed

theorem index_entries_normalised_witness:
  "matrix_indices (snd (add_data
      (NDArray 1 [[5::int], [6]],
       [[Key (''biosphere3'', ''f1''), Key (''db'', ''a1'')], [Key (''biosphere3'', ''f2''), Key (''db'', ''a1'')]])
      ex_fresh)) =
     [[Key (''biosphere3'', ''f1''), Key (''db'', ''a1''), Str ''biosphere''],
      [Key (''biosphere3'', ''f2''), Key (''db'', ''a1''), Str ''biosphere'']] \<and>
   matrix_indices (snd (add_data
      (NDArray 1 [[7::int]], [[Key (''db'', ''a2''), Key (''db'', ''a1''), Str ''technosphere'']])
      ex_fresh)) =
     [[Key (''db'', ''a2''), Key (''db'', ''a1''), Str ''technosphere'']] \<and>
   fst (add_samples_for_act ex_generate_two_shapes (ByKey (''db'', ''a1'')) 1 ex_fresh) = Inr () \<and>
   matrix_indices (snd (add_samples_for_act ex_generate_two_shapes (ByKey (''db'', ''a1'')) 1 ex_fresh)) =
     [[Key (''biosphere3'', ''f1''), Key (''db'', ''a1''), Str ''biosphere''],
      [Key (''db'', ''a2''), Key (''db'', ''a1''), Str ''technosphere'']]"
proof -
  let ?d2 = "(NDArray 1 [[5::int], [6]],
       [[Key (''biosphere3'', ''f1''), Key (''db'', ''a1'')], [Key (''biosphere3'', ''f2''), Key (''db'', ''a1'')]])"
  let ?d3 = "(NDArray 1 [[7::int]], [[Key (''db'', ''a2''), Key (''db'', ''a1''), Str ''technosphere'']])"
  let ?call = "add_samples_for_act ex_generate_two_shapes (ByKey (''db'', ''a1'')) 1 ex_fresh"
  have ok: "fst ?call = Inr ()"
    by (simp add: ex_eval ex_generate_two_shapes_def)
  then have call: "?call = (Inr (), snd ?call)"
    by (metis prod.collapse)
  have y: "fst (ex_generate_two_shapes ex_fresh (ByKey (''db'', ''a1'')) 1) =
      [(NDArray 1 [replicate 1 1], [[Key (''biosphere3'', ''f1''), Key (''db'', ''a1'')]]),
       (NDArray 1 [replicate 1 2], [[Key (''db'', ''a2''), Key (''db'', ''a1''), Str ''technosphere'']])]"
    by (simp add: ex_generate_two_shapes_def Let_def)
  from index_entries_normalised
         [of ?d2 "[(Key (''biosphere3'', ''f1''), Key (''db'', ''a1'')), (Key (''biosphere3'', ''f2''), Key (''db'', ''a1''))]"
             ex_fresh ex_generate_two_shapes "ByKey (''db'', ''a1'')" 1 "snd ?call"]
       index_entries_normalised
         [of ?d3 "[]" ex_fresh ex_generate_two_shapes "ByKey (''db'', ''a1'')" 1 "snd ?call"]
       call ok y
  show ?thesis
    by (simp add: ex_fresh_def spec_normalized_def)
qed

text \<open>
  Claim C7. When the balancer already holds a Sample Matrix and the resampler yields a
  block whose column count differs from the matrix's (the second of two calls with 100
  and then 50 iterations, say), the call raises: no such call returns. If the index blocks
  yielded up to and including that pair are as the resampler contract describes them
  and the blocks before it have the matrix's width, the exception is the ValueError of
  \<^verbatim>\<open>np.concatenate\<close>, which \<^verbatim>\<open>add_samples_for_act\<close> hands to its caller as it is.
\<close>

theorem mismatched_width_fails:
  assumes "matrix_samples b = Some m"
    and "generate_samples b act_key iterations = (pre @ (blk, idx) # post, stop)"
    and "ncols blk \<noteq> ncols m"
  shows "(\<exists>e. fst (add_samples_for_act generate_samples act_key iterations b) = Inl e) \<and>
         ((\<forall>d\<in>set pre. ncols (fst d) = ncols m \<and> contract_block (snd d)) \<and> contract_block idx \<longrightarrow>
            fst (add_samples_for_act generate_samples act_key iterations b) =
              Inl (ValueError ''all the input array dimensions except for the concatenation axis must match exactly''))"
proof
  let ?r = "add_samples_for_act generate_samples act_key iterations b"
  show "\<exists>e. fst ?r = Inl e"
  proof (cases "fst ?r")
    case (Inl e)
    then show ?thesis by blast
  next
    case (Inr u)
    then have "?r = (Inr u, snd ?r)"
      by (metis prod.collapse)
    from consume_Inr [OF add_samples_for_act_Inr [OF this]] assms(1,2)
    have "ncols blk = ncols m" by auto
    with assms(3) show ?thesis by simp
  qed
next
  show "(\<forall>d\<in>set pre. ncols (fst d) = ncols m \<and> contract_block (snd d)) \<and> contract_block idx \<longrightarrow>
      fst (add_samples_for_act generate_samples act_key iterations b) =
        Inl (ValueError ''all the input array dimensions except for the concatenation axis must match exactly'')"
  proof
    assume "(\<forall>d\<in>set pre. ncols (fst d) = ncols m \<and> contract_block (snd d)) \<and> contract_block idx"
    then have "\<forall>d\<in>set pre. ncols (fst d) = ncols m \<and> contract_block (snd d)" and "contract_block idx"
      by simp_all
    from consume_mismatch [OF assms(1) this assms(3), of post stop] assms(2)
    show "fst (add_samples_for_act generate_samples act_key iterations b) =
        Inl (ValueError ''all the input array dimensions except for the concatenation axis must match exactly'')"
      by (simp add: add_samples_for_act_def)
  qed
qed

theorem mismatched_width_fails_witness:
  "fst (add_samples_for_act ex_generate_samples (ByKey (''db'', ''a1'')) 100 ex_fresh) = Inr () \<and>
   fst (add_samples_for_act ex_generate_samples (ByKey (''db'', ''a2'')) 50
          (snd (add_samples_for_act ex_generate_samples (ByKey (''db'', ''a1'')) 100 ex_fresh))) =
     Inl (ValueError ''all the input array dimensions except for the concatenation axis must match exactly'')"
proof -
  let ?b = "snd (add_samples_for_act ex_generate_samples (ByKey (''db'', ''a1'')) 100 ex_fresh)"
  let ?idx = "[[Key (''biosphere3'', ''f1''), Key (''db'', ''a2'')], [Key (''biosphere3'', ''f2''), Key (''db'', ''a2'')]]"
  have h1: "matrix_samples ?b = Some (NDArray 100 [replicate 100 1, replicate 100 2])"
    by (simp add: ex_call_100)
  have h2: "ex_generate_samples ?b (ByKey (''db'', ''a2'')) 50 =
      ([] @ (NDArray 50 [replicate 50 1, replicate 50 2], ?idx) # [], None)"
    unfolding ex_call_100 by (simp add: ex_generate_samples_def Let_def ex_fresh_def)
  have h3: "ncols (NDArray 50 [replicate 50 (1::int), replicate 50 2]) \<noteq>
      ncols (NDArray 100 [replicate 100 (1::int), replicate 100 2])"
    by simp
  have h4: "contract_block ?idx"
    by (simp add: contract_block_def)
  from mismatched_width_fails
         [where generate_samples = ex_generate_samples and act_key = "ByKey (''db'', ''a2'')"
            and iterations = 50 and b = ?b and pre = "[]" and post = "[]" and stop = None, OF h1 h2 h3] h4 ex_call_100 show ?thesis
    by simp
qed

text \<open>
  Claim C10. \<^verbatim>\<open>add_samples_for_act\<close> is not atomic. When the concatenation of a yielded
  block raises because of its width, the call ends with the exception, and the balancer it
  leaves has the index entries of that pair (and of the pairs before it) appended to
  \<open>matrix_indices\<close> while the Sample Matrix holds the rows of the earlier pairs only. If
  \<open>matrix_indices\<close> was as long as the matrix had rows before the call, it is now longer,
  by the number of entries of the failing pair's index block.
\<close>

theorem failed_concatenation_leaves_indices:
  assumes "matrix_samples b = Some m"
    and "generate_samples b act_key iterations = (pre @ (blk, idx) # post, stop)"
    and "\<forall>d\<in>set pre. ncols (fst d) = ncols m \<and> contract_block (snd d) \<and> length (snd d) = nrows (fst d)"
    and "contract_block idx"
    and "ncols blk \<noteq> ncols m"
    and "length (matrix_indices b) = nrows m"
  shows "\<exists>e b'. add_samples_for_act generate_samples act_key iterations b = (Inl e, b') \<and>
           matrix_indices b' =
             matrix_indices b @ concat (map (\<lambda>d. spec_normalized (snd d)) pre) @ spec_normalized idx \<and>
           sample_rows b' = sample_rows b @ concat (map (\<lambda>d. rows (fst d)) pre) \<and>
           length (matrix_indices b') = length (sample_rows b') + length idx \<and>
           length (matrix_indices b') \<noteq> length (sample_rows b')"
proof -
  from assms(3) have pre: "\<forall>d\<in>set pre. ncols (fst d) = ncols m \<and> contract_block (snd d)"
    by simp
  have len: "length (concat (map (\<lambda>d. spec_normalized (snd d)) ys)) = length (concat (map (\<lambda>d. rows (fst d)) ys))"
    if "\<forall>d\<in>set ys. length (snd d) = nrows (fst d)" for ys :: "'a data list"
    using that by (induction ys) (auto simp: nrows_def)
  from assms(3) have "length (concat (map (\<lambda>d. spec_normalized (snd d)) pre)) =
      length (concat (map (\<lambda>d. rows (fst d)) pre))"
    by (intro len) simp
  moreover from assms(4) have "idx \<noteq> []"
    by (auto simp: contract_block_def)
  ultimately show ?thesis
    using consume_mismatch [OF assms(1) pre assms(4,5), of post stop] assms(1,2,6)
    by (simp add: add_samples_for_act_def sample_rows_def nrows_def)
qed

theorem failed_concatenation_leaves_indices_witness:
  "fst (add_samples_for_act ex_generate_samples (ByKey (''db'', ''a1'')) 100 ex_fresh) = Inr () \<and>
   (\<exists>e b'. add_samples_for_act ex_generate_samples (ByKey (''db'', ''a2'')) 50
          (snd (add_samples_for_act ex_generate_samples (ByKey (''db'', ''a1'')) 100 ex_fresh)) = (Inl e, b') \<and>
      length (matrix_indices b') = 4 \<and> length (sample_rows b') = 2)"
proof -
  let ?b = "snd (add_samples_for_act ex_generate_samples (ByKey (''db'', ''a1'')) 100 ex_fresh)"
  let ?idx = "[[Key (''biosphere3'', ''f1''), Key (''db'', ''a2'')], [Key (''biosphere3'', ''f2''), Key (''db'', ''a2'')]]"
  have h1: "matrix_samples ?b = Some (NDArray 100 [replicate 100 1, replicate 100 2])"
    by (simp add: ex_call_100)
  have h2: "ex_generate_samples ?b (ByKey (''db'', ''a2'')) 50 =
      ([] @ (NDArray 50 [replicate 50 1, replicate 50 2], ?idx) # [], None)"
    unfolding ex_call_100 by (simp add: ex_generate_samples_def Let_def ex_fresh_def)
  have h3: "\<forall>d\<in>set ([] :: int data list).
      ncols (fst d) = ncols (NDArray 100 [replicate 100 (1::int), replicate 100 2]) \<and>
      contract_block (snd d) \<and> length (snd d) = nrows (fst d)"
    by simp
  have h4: "contract_block ?idx"
    by (simp add: contract_block_def)
  have h5: "ncols (NDArray 50 [replicate 50 (1::int), replicate 50 2]) \<noteq>
      ncols (NDArray 100 [replicate 100 (1::int), replicate 100 2])"
    by simp
  have h6: "length (matrix_indices ?b) = nrows (NDArray 100 [replicate 100 (1::int), replicate 100 2])"
    by (simp add: ex_call_100 nrows_def)
  from failed_concatenation_leaves_indices
         [where generate_samples = ex_generate_samples and act_key = "ByKey (''db'', ''a2'')"
            and iterations = 50 and b = ?b and pre = "[]" and post = "[]" and stop = None, OF h1 h2 h3 h4 h5 h6] ex_call_100 show ?thesis
    by (auto simp: sample_rows_def spec_normalized_def)
qed

text \<open>
  Claim C8. \<^verbatim>\<open>add_samples_for_all_acts\<close> reads the keys of the target database once, when it
  is called, and walks through them in the order of the registry. When every key resolves
  to its activity, the batch is the sequence of \<^verbatim>\<open>add_samples_for_act\<close> calls, one for each
  activity in that order, all with the given iteration count, ended by the first
  exception. In general, once the activities before some key have been processed, the
  outcome of the batch is decided at that key: if the key does not resolve or the call
  for it raises, the batch ends with that exception and with the balancer as the failing
  call left it, and no later activity is processed; otherwise the batch goes on with the
  next key.
\<close>

theorem all_acts_in_order_abort_on_first_failure:
  "(map (get_activity env) (map key (Database env (database_name b))) = map Inr acts \<longrightarrow>
      add_samples_for_all_acts generate_samples env iterations b =
        add_samples_calls generate_samples (map (\<lambda>act. (ByActivity act, iterations)) acts) b) \<and>
   (map key (Database env (database_name b)) = before @ act_key # rest \<and>
    for_act_keys generate_samples env iterations before b = (Inr (), b1) \<longrightarrow>
      add_samples_for_all_acts generate_samples env iterations b =
        (case get_activity env act_key of
           Inl e \<Rightarrow> (Inl e, b1)
         | Inr act \<Rightarrow>
             (case add_samples_for_act generate_samples (ByActivity act) iterations b1 of
                (Inl e, b2) \<Rightarrow> (Inl e, b2)
              | (Inr u, b2) \<Rightarrow> for_act_keys generate_samples env iterations rest b2)))"
proof (intro conjI impI)
  assume "map (get_activity env) (map key (Database env (database_name b))) = map Inr acts"
  then show "add_samples_for_all_acts generate_samples env iterations b =
      add_samples_calls generate_samples (map (\<lambda>act. (ByActivity act, iterations)) acts) b"
    by (simp add: add_samples_for_all_acts_def for_act_keys_calls del: map_map)
next
  assume "map key (Database env (database_name b)) = before @ act_key # rest \<and>
    for_act_keys generate_samples env iterations before b = (Inr (), b1)"
  then show "add_samples_for_all_acts generate_samples env iterations b =
        (case get_activity env act_key of
           Inl e \<Rightarrow> (Inl e, b1)
         | Inr act \<Rightarrow>
             (case add_samples_for_act generate_samples (ByActivity act) iterations b1 of
                (Inl e, b2) \<Rightarrow> (Inl e, b2)
              | (Inr u, b2) \<Rightarrow> for_act_keys generate_samples env iterations rest b2))"
    by (simp add: add_samples_for_all_acts_def for_act_keys_append split: sum.splits prod.splits)
qed

theorem all_acts_in_order_abort_on_first_failure_witness:
  "add_samples_for_all_acts ex_generate_samples ex_bd 3 ex_fresh =
     add_samples_calls ex_generate_samples
       [(ByActivity \<lparr>key = (''db'', ''a1''), name = ''logging''\<rparr>, 3),
        (ByActivity \<lparr>key = (''db'', ''a2''), name = ''farming''\<rparr>, 3)] ex_fresh \<and>
   length (matrix_indices (snd (add_samples_for_all_acts ex_generate_samples ex_bd 3 ex_fresh))) = 4 \<and>
   add_samples_for_all_acts ex_generate_raising ex_bd 3 ex_fresh =
     (Inl (Failure ''no land exchanges''),
      ex_fresh\<lparr>matrix_indices :=
                 [[Key (''biosphere3'', ''f1''), Key (''db'', ''a1''), Str ''biosphere''],
                  [Key (''biosphere3'', ''f2''), Key (''db'', ''a1''), Str ''biosphere'']],
               matrix_samples := Some (NDArray 3 [replicate 3 1, replicate 3 2])\<rparr>)"
proof -
  let ?a1 = "\<lparr>key = (''db'', ''a1''), name = ''logging''\<rparr>" and ?a2 = "\<lparr>key = (''db'', ''a2''), name = ''farming''\<rparr>"
  let ?b1 = "ex_fresh\<lparr>matrix_indices :=
                 [[Key (''biosphere3'', ''f1''), Key (''db'', ''a1''), Str ''biosphere''],
                  [Key (''biosphere3'', ''f2''), Key (''db'', ''a1''), Str ''biosphere'']],
               matrix_samples := Some (NDArray 3 [replicate 3 (1::int), replicate 3 2])\<rparr>"
  have h1: "map (get_activity ex_bd) (map key (Database ex_bd (database_name ex_fresh))) = map Inr [?a1, ?a2]"
    unfolding ex_act_keys by (simp add: ex_get_activity)
  have h2: "map key (Database ex_bd (database_name ex_fresh)) = [(''db'', ''a1'')] @ (''db'', ''a2'') # []"
    unfolding ex_act_keys by simp
  note all = all_acts_in_order_abort_on_first_failure
    [where env = ex_bd and b = ex_fresh and iterations = 3 and acts = "[?a1, ?a2]"
       and before = "[(''db'', ''a1'')]" and act_key = "(''db'', ''a2'')" and rest = "[]" and ?b1.0 = ?b1]
  from all [where generate_samples = ex_generate_samples, THEN conjunct1, THEN mp, OF h1]
  have 1: "add_samples_for_all_acts ex_generate_samples ex_bd 3 ex_fresh =
     add_samples_calls ex_generate_samples [(ByActivity ?a1, 3), (ByActivity ?a2, 3)] ex_fresh"
    by simp
  have 2: "length (matrix_indices (snd (add_samples_calls ex_generate_samples
      [(ByActivity ?a1, 3), (ByActivity ?a2, 3)] ex_fresh))) = 4"
    by (simp add: ex_eval)
  from all [where generate_samples = ex_generate_raising, THEN conjunct2, THEN mp, OF conjI [OF h2 ex_raising_first]]
  have 3: "add_samples_for_all_acts ex_generate_raising ex_bd 3 ex_fresh = (Inl (Failure ''no land exchanges''), ?b1)"
    by (simp add: ex_get_activity ex_generate_raising_def add_samples_for_act_def)
  from 1 2 3 show ?thesis by simp
qed

subsection \<open>Export\<close>

text \<open>
  Claim C6, as the code has it. When the Sample Matrix is unset or the Index list is
  empty, \<^verbatim>\<open>create_presamples\<close> emits the warning and returns nothing: it does not raise, the
  package store is as it was, and so is the balancer. After an \<^verbatim>\<open>add_samples_for_act\<close> that
  returned and during which the resampler yielded at least one pair, the Sample Matrix is
  set and the Index list is not empty, so \<^verbatim>\<open>create_presamples\<close> neither warns nor returns
  nothing: whenever the partition routine and the package writer return, the result is
  the pair (package identifier, directory path) of the writer, and the store is the one
  the writer left.
\<close>

theorem export_guard_and_result:
  "(matrix_samples (self w) = None \<or> matrix_indices (self w) = [] \<longrightarrow>
      create_presamples split_inventory_presamples create_presamples_package
          name' id' overwrite dirpath seed' w =
        (Inr None, w\<lparr>warned := warned w @ [no_matrix_data]\<rparr>)) \<and>
   (add_samples_for_act generate_samples act_key iterations b = (Inr (), self w) \<and>
    fst (generate_samples b act_key iterations) \<noteq> [] \<longrightarrow>
      (\<exists>m. matrix_samples (self w) = Some m \<and> matrix_indices (self w) \<noteq> [] \<and>
           fst (create_presamples split_inventory_presamples create_presamples_package
                  name' id' overwrite dirpath seed' w) \<noteq> Inr None \<and>
           warned (snd (create_presamples split_inventory_presamples create_presamples_package
                  name' id' overwrite dirpath seed' w)) = warned w \<and>
           (\<forall>matrix_data id_dirpath s'.
              split_inventory_presamples m (matrix_indices (self w)) = Inr matrix_data \<and>
              create_presamples_package matrix_data name' id' overwrite dirpath seed' (store w) =
                (Inr id_dirpath, s') \<longrightarrow>
                create_presamples split_inventory_presamples create_presamples_package
                    name' id' overwrite dirpath seed' w =
                  (Inr (Some id_dirpath), w\<lparr>store := s'\<rparr>))))"
proof (intro conjI impI)
  assume "matrix_samples (self w) = None \<or> matrix_indices (self w) = []"
  then show "create_presamples split_inventory_presamples create_presamples_package
          name' id' overwrite dirpath seed' w =
        (Inr None, w\<lparr>warned := warned w @ [no_matrix_data]\<rparr>)"
    by (auto simp: create_presamples_def)
next
  assume *: "add_samples_for_act generate_samples act_key iterations b = (Inr (), self w) \<and>
    fst (generate_samples b act_key iterations) \<noteq> []"
  then have "consume (fst (generate_samples b act_key iterations)) None b = (Inr (), self w)"
    by (simp add: add_samples_for_act_Inr)
  from consume_Inr [OF this] * obtain m where m: "matrix_samples (self w) = Some m"
    and i: "matrix_indices (self w) \<noteq> []"
    by auto
  then show "\<exists>m. matrix_samples (self w) = Some m \<and> matrix_indices (self w) \<noteq> [] \<and>
           fst (create_presamples split_inventory_presamples create_presamples_package
                  name' id' overwrite dirpath seed' w) \<noteq> Inr None \<and>
           warned (snd (create_presamples split_inventory_presamples create_presamples_package
                  name' id' overwrite dirpath seed' w)) = warned w \<and>
           (\<forall>matrix_data id_dirpath s'.
              split_inventory_presamples m (matrix_indices (self w)) = Inr matrix_data \<and>
              create_presamples_package matrix_data name' id' overwrite dirpath seed' (store w) =
                (Inr id_dirpath, s') \<longrightarrow>
                create_presamples split_inventory_presamples create_presamples_package
                    name' id' overwrite dirpath seed' w =
                  (Inr (Some id_dirpath), w\<lparr>store := s'\<rparr>))"
    by (auto simp: create_presamples_def split: sum.splits prod.splits)
qed

theorem export_guard_and_result_witness:
  "create_presamples ex_split ex_writer None None False None Sequential
       \<lparr>self = ex_fresh, store = [], warned = []\<rparr> =
     (Inr None, \<lparr>self = ex_fresh, store = [], warned = [no_matrix_data]\<rparr>) \<and>
   fst (add_samples_for_act ex_generate_samples (ByKey (''db'', ''a1'')) 3 ex_fresh) = Inr () \<and>
   fst (create_presamples ex_split ex_writer None None False None Sequential
       \<lparr>self = snd (add_samples_for_act ex_generate_samples (ByKey (''db'', ''a1'')) 3 ex_fresh),
        store = [], warned = []\<rparr>) = Inr (Some (''generated-id'', ''project/presamples''))"
proof -
  let ?b = "snd (add_samples_for_act ex_generate_samples (ByKey (''db'', ''a1'')) 3 ex_fresh)"
  let ?fresh = "\<lparr>self = ex_fresh, store = [] :: (string \<times> int ndarray \<times> index_row list) list, warned = []\<rparr>"
  let ?w = "\<lparr>self = ?b, store = [] :: (string \<times> int ndarray \<times> index_row list) list, warned = []\<rparr>"
  note thm0 = export_guard_and_result
    [where split_inventory_presamples = ex_split and create_presamples_package = ex_writer
       and name' = None and id' = None and overwrite = False and dirpath = None and seed' = Sequential
       and generate_samples = ex_generate_samples and act_key = "ByKey (''db'', ''a1'')" and iterations = 3
       and b = ex_fresh]
  have g: "matrix_samples (self ?fresh) = None \<or> matrix_indices (self ?fresh) = []"
    by (simp add: ex_fresh_def)
  from thm0 [where w = ?fresh, THEN conjunct1, THEN mp, OF g]
  have 1: "create_presamples ex_split ex_writer None None False None Sequential ?fresh =
     (Inr None, \<lparr>self = ex_fresh, store = [], warned = [no_matrix_data]\<rparr>)"
    by simp
  have h: "add_samples_for_act ex_generate_samples (ByKey (''db'', ''a1'')) 3 ex_fresh = (Inr (), self ?w) \<and>
      fst (ex_generate_samples ex_fresh (ByKey (''db'', ''a1'')) 3) \<noteq> []"
    by (simp add: ex_call_3 ex_generate_samples_def Let_def)
  from thm0 [where w = ?w, THEN conjunct2, THEN mp, OF h]
  have 2: "fst (create_presamples ex_split ex_writer None None False None Sequential ?w) =
      Inr (Some (''generated-id'', ''project/presamples''))"
    unfolding ex_call_3 by (simp add: ex_split_def ex_writer_def Let_def nrows_def ex_fresh_def)
  from 1 2 ex_call_3 show ?thesis by simp
qed

text \<open>
  The condition on the resampler cannot be dropped. A call during which the resampler
  yields nothing returns and leaves the balancer as it was; \<^verbatim>\<open>create_presamples\<close> then
  takes the no-op branch: it warns and returns nothing, although a successful
  \<^verbatim>\<open>add_samples_for_act\<close> went before.
\<close>

theorem export_after_empty_call_counterexample:
  "init_default ex_bd ''db'' = Inr ex_fresh \<and>
   add_samples_for_act ex_generate_nothing (ByKey (''db'', ''a1'')) 100 ex_fresh = (Inr (), ex_fresh) \<and>
   create_presamples ex_split ex_writer None None False None Sequential
       \<lparr>self = ex_fresh, store = [], warned = []\<rparr> =
     (Inr None, \<lparr>self = ex_fresh, store = [], warned = [no_matrix_data]\<rparr>)"
  by (simp add: ex_init add_samples_for_act_def ex_generate_nothing_def create_presamples_def ex_fresh_def)

text \<open>
  Claim C9. \<^verbatim>\<open>create_presamples\<close> leaves the balancer as it found it, whatever it returns
  or raises, so a second call sees the same accumulated state and the same classification.
  \<^verbatim>\<open>add_samples_for_act\<close> and \<^verbatim>\<open>add_samples_for_all_acts\<close>, whether they return or raise, leave
  \<open>land_in_keys\<close>, \<open>land_out_keys\<close> and \<open>all_land_keys\<close> as construction set them.
\<close>

theorem export_reads_classification_fixed:
  "self (snd (create_presamples split_inventory_presamples create_presamples_package
                name' id' overwrite dirpath seed' w)) = self w \<and>
   self (snd (create_presamples split_inventory_presamples create_presamples_package
                name' id' overwrite dirpath seed'
                (snd (create_presamples split_inventory_presamples create_presamples_package
                        name' id' overwrite dirpath seed' w)))) = self w \<and>
   land_in_keys (snd (add_samples_for_act generate_samples act_key iterations b)) = land_in_keys b \<and>
   land_out_keys (snd (add_samples_for_act generate_samples act_key iterations b)) = land_out_keys b \<and>
   all_land_keys (snd (add_samples_for_act generate_samples act_key iterations b)) = all_land_keys b \<and>
   land_in_keys (snd (add_samples_for_all_acts generate_samples env iterations b)) = land_in_keys b \<and>
   land_out_keys (snd (add_samples_for_all_acts generate_samples env iterations b)) = land_out_keys b \<and>
   all_land_keys (snd (add_samples_for_all_acts generate_samples env iterations b)) = all_land_keys b"
proof -
  have "same_config b (snd (add_samples_for_act generate_samples act_key iterations b))"
    using add_samples_for_act_frame [of generate_samples act_key iterations b]
    by (metis prod.collapse)
  moreover have "same_config b (snd (add_samples_for_all_acts generate_samples env iterations b))"
    unfolding add_samples_for_all_acts_def Let_def
    using for_act_keys_frame [of generate_samples env iterations _ b]
    by (metis prod.collapse)
  ultimately show ?thesis
    by (simp add: create_presamples_self same_config_def)
qed

theorem export_reads_classification_fixed_witness:
  "self (snd (create_presamples ex_split ex_writer None None False None Sequential
                \<lparr>self = snd (add_samples_for_act ex_generate_samples (ByKey (''db'', ''a1'')) 3 ex_fresh),
                 store = [], warned = []\<rparr>)) =
     snd (add_samples_for_act ex_generate_samples (ByKey (''db'', ''a1'')) 3 ex_fresh) \<and>
   all_land_keys (snd (add_samples_for_act ex_generate_samples (ByKey (''db'', ''a1'')) 3 ex_fresh)) =
     [(''biosphere3'', ''f1''), (''biosphere3'', ''f2'')] \<and>
   all_land_keys (snd (add_samples_for_all_acts ex_generate_samples ex_bd 3 ex_fresh)) =
     [(''biosphere3'', ''f1''), (''biosphere3'', ''f2'')]"
  using export_reads_classification_fixed
    [where split_inventory_presamples = ex_split and create_presamples_package = ex_writer
       and name' = None and id' = None and overwrite = False and dirpath = None and seed' = Sequential
       and w = "\<lparr>self = snd (add_samples_for_act ex_generate_samples (ByKey (''db'', ''a1'')) 3 ex_fresh),
                 store = [], warned = []\<rparr>"
       and generate_samples = ex_generate_samples and act_key = "ByKey (''db'', ''a1'')" and iterations = 3
       and b = ex_fresh and env = ex_bd]
  by (simp add: ex_fresh_def)

end
